theory Spec2Isabelle
  imports Complex_Main "HOL-Library.Word"
begin

unbundle bit_operations_syntax

section \<open>Render strategy selection (GameGrid.tsx)\<close>

text \<open>
  \<^verbatim>\<open>GameGrid\<close> returns one of four components. The three early returns name the
  components \<^verbatim>\<open>MobileOptimizedCanvas\<close>, \<^verbatim>\<open>CanvasGameGrid\<close> and
  \<^verbatim>\<open>VirtualizedGameGrid\<close>; the fall-through renders one \<^verbatim>\<open>Block\<close>
  element per cell.
\<close>

datatype backend = BlockPerCell | VirtualizedGameGrid | CanvasGameGrid | MobileOptimizedCanvas

text \<open>
  \<^verbatim>\<open>const isMobile = typeof window !== 'undefined' && window.innerWidth < 768\<close>.
  The argument is \<^verbatim>\<open>window.innerWidth\<close>, or \<open>None\<close> where \<^verbatim>\<open>window\<close> is undefined.
\<close>

definition isMobile :: "int option \<Rightarrow> bool" where
  "isMobile innerWidth = (case innerWidth of None \<Rightarrow> False | Some w \<Rightarrow> w < 768)"

definition GameGrid_backend :: "nat \<Rightarrow> nat \<Rightarrow> int option \<Rightarrow> backend" where
  "GameGrid_backend rows cols innerWidth =
     (let totalBlocks = rows * cols in
      if isMobile innerWidth \<and> totalBlocks > 1000 then MobileOptimizedCanvas
      else if totalBlocks > 5000 then CanvasGameGrid
      else if totalBlocks > 1000 then VirtualizedGameGrid
      else BlockPerCell)"

text \<open>
  The selection table as the specification words it: the device class is desktop or
  touch/small-screen, the rows are \<open>\<le> 1,000\<close>, \<open>1,000\<close>--\<open>5,000\<close> and \<open>> 5,000\<close>.
\<close>

datatype deviceClass = Desktop | Touch

definition deviceClassOf :: "int option \<Rightarrow> deviceClass" where
  "deviceClassOf innerWidth = (if isMobile innerWidth then Touch else Desktop)"

definition spec_select :: "nat \<Rightarrow> deviceClass \<Rightarrow> backend" where
  "spec_select totalCells d =
     (if totalCells \<le> 1000 then BlockPerCell
      else if totalCells \<le> 5000 then
        (case d of Desktop \<Rightarrow> VirtualizedGameGrid | Touch \<Rightarrow> MobileOptimizedCanvas)
      else
        (case d of Desktop \<Rightarrow> CanvasGameGrid | Touch \<Rightarrow> MobileOptimizedCanvas))"

section \<open>Camera and cell pitch\<close>

text \<open>
  Both canvas components keep \<^verbatim>\<open>viewport = { x, y, zoom }\<close> in React state. JavaScript
  numbers are modelled as real numbers: the arithmetic is exact, and the values are finite.
  The one place of the modelled code where a divisor can be zero in a reachable state (the
  pinch handler) is modelled with the non-finite values written out, further below.
  Field names carry the prefix \<open>vp_\<close>.
\<close>

record ViewPort =
  vp_x :: real
  vp_y :: real
  vp_zoom :: real

text \<open>
  \<^verbatim>\<open>CanvasGameGrid\<close>:
  \<^verbatim>\<open>baseCellSize = 8; cellSize = Math.max(2, baseCellSize * viewport.zoom);
  gap = Math.max(1, viewport.zoom)\<close>. The sum \<^verbatim>\<open>cellSize + gap\<close> is the cell pitch.
\<close>

definition Canvas_baseCellSize :: real where
  "Canvas_baseCellSize = 8"

definition Canvas_cellSize :: "real \<Rightarrow> real" where
  "Canvas_cellSize zoom = max 2 (Canvas_baseCellSize * zoom)"

definition Canvas_gap :: "real \<Rightarrow> real" where
  "Canvas_gap zoom = max 1 zoom"

definition Canvas_pitch :: "real \<Rightarrow> real" where
  "Canvas_pitch zoom = Canvas_cellSize zoom + Canvas_gap zoom"

text \<open>
  \<^verbatim>\<open>MobileOptimizedCanvas\<close>:
  \<^verbatim>\<open>baseCellSize = 6; cellSize = Math.max(1, baseCellSize * viewport.zoom);
  gap = Math.max(0.5, viewport.zoom)\<close>.
\<close>

definition Mobile_baseCellSize :: real where
  "Mobile_baseCellSize = 6"

definition Mobile_cellSize :: "real \<Rightarrow> real" where
  "Mobile_cellSize zoom = max 1 (Mobile_baseCellSize * zoom)"

definition Mobile_gap :: "real \<Rightarrow> real" where
  "Mobile_gap zoom = max (1 / 2) zoom"

definition Mobile_pitch :: "real \<Rightarrow> real" where
  "Mobile_pitch zoom = Mobile_cellSize zoom + Mobile_gap zoom"

section \<open>Visibility culling (drawGrid)\<close>

text \<open>
  The four bounds that \<^verbatim>\<open>drawGrid\<close> computes before its loops. \<^verbatim>\<open>canvas.width\<close> and
  \<^verbatim>\<open>canvas.height\<close> are non-negative integers, \<^verbatim>\<open>rows\<close> and \<^verbatim>\<open>cols\<close> the grid size.
\<close>

record VisibleArea =
  visibleStartX :: int
  visibleEndX :: int
  visibleStartY :: int
  visibleEndY :: int

definition Canvas_visibleArea :: "ViewPort \<Rightarrow> nat \<Rightarrow> nat \<Rightarrow> nat \<Rightarrow> nat \<Rightarrow> VisibleArea" where
  "Canvas_visibleArea viewport rows cols width height =
     (let cellSize = Canvas_cellSize (vp_zoom viewport); gap = Canvas_gap (vp_zoom viewport) in
      \<lparr> visibleStartX = max 0 \<lfloor>- vp_x viewport / (cellSize + gap)\<rfloor>,
        visibleEndX = min (int cols) (\<lceil>(real width - vp_x viewport) / (cellSize + gap)\<rceil> + 1),
        visibleStartY = max 0 \<lfloor>- vp_y viewport / (cellSize + gap)\<rfloor>,
        visibleEndY = min (int rows) (\<lceil>(real height - vp_y viewport) / (cellSize + gap)\<rceil> + 1) \<rparr>)"

definition Mobile_buffer :: real where
  "Mobile_buffer = 20"

definition Mobile_visibleArea :: "ViewPort \<Rightarrow> nat \<Rightarrow> nat \<Rightarrow> nat \<Rightarrow> nat \<Rightarrow> VisibleArea" where
  "Mobile_visibleArea viewport rows cols width height =
     (let cellSize = Mobile_cellSize (vp_zoom viewport); gap = Mobile_gap (vp_zoom viewport);
          buffer = Mobile_buffer in
      \<lparr> visibleStartX = max 0 \<lfloor>(- vp_x viewport - buffer) / (cellSize + gap)\<rfloor>,
        visibleEndX = min (int cols) \<lceil>(real width - vp_x viewport + buffer) / (cellSize + gap)\<rceil>,
        visibleStartY = max 0 \<lfloor>(- vp_y viewport - buffer) / (cellSize + gap)\<rfloor>,
        visibleEndY = min (int rows) \<lceil>(real height - vp_y viewport + buffer) / (cellSize + gap)\<rceil> \<rparr>)"

text \<open>
  The nested loops
  \<^verbatim>\<open>for (row = visibleStartY; row < visibleEndY; row++)
    for (col = visibleStartX; col < visibleEndX; col++)\<close>
  as the list of the pairs \<open>(row, col)\<close> they visit, in order.
\<close>

definition loopCells :: "VisibleArea \<Rightarrow> (int \<times> int) list" where
  "loopCells a =
     concat (map (\<lambda>row. map (\<lambda>col. (row, col)) [visibleStartX a..visibleEndX a - 1])
                 [visibleStartY a..visibleEndY a - 1])"





section \<open>Notions used to state the culling properties\<close>

text \<open>The touch canvas's pixel buffer, expressed in cells of the current pitch.\<close>

definition Mobile_bufferCells :: "real \<Rightarrow> real" where
  "Mobile_bufferCells zoom = Mobile_buffer / Mobile_pitch zoom"






section \<open>Camera operations of CanvasGameGrid\<close>

text \<open>
  \<^verbatim>\<open>handleWheel\<close>. The handler is attached to the canvas element, so \<^verbatim>\<open>canvasRef.current\<close>
  is set when it runs; \<open>rectLeft\<close> and \<open>rectTop\<close> are the \<^verbatim>\<open>left\<close> and \<^verbatim>\<open>top\<close> of
  \<^verbatim>\<open>canvas.getBoundingClientRect()\<close>. The divisor \<^verbatim>\<open>viewport.zoom\<close> is positive in every
  state this component reaches: it starts at 1, and every operation below stores a
  positive zoom from a positive one.
\<close>

definition Canvas_handleWheel :: "ViewPort \<Rightarrow> real \<Rightarrow> real \<Rightarrow> real \<Rightarrow> real \<Rightarrow> real \<Rightarrow> ViewPort" where
  "Canvas_handleWheel viewport deltaY clientX clientY rectLeft rectTop =
     (let zoomFactor = 1 / 10;
          newZoom = max (1 / 10) (min 5 (vp_zoom viewport * (1 - deltaY * zoomFactor * (1 / 100))));
          mouseX = clientX - rectLeft;
          mouseY = clientY - rectTop;
          zoomRatio = newZoom / vp_zoom viewport;
          newX = mouseX - (mouseX - vp_x viewport) * zoomRatio;
          newY = mouseY - (mouseY - vp_y viewport) * zoomRatio
      in \<lparr> vp_x = newX, vp_y = newY, vp_zoom = newZoom \<rparr>)"

text \<open>
  \<^verbatim>\<open>handleMouseMove\<close>; \<open>dragStart\<close> is the pair \<open>(x, y)\<close> of the state of that name.
\<close>

definition Canvas_handleMouseMove :: "bool \<Rightarrow> real \<times> real \<Rightarrow> real \<Rightarrow> real \<Rightarrow> ViewPort \<Rightarrow> ViewPort" where
  "Canvas_handleMouseMove isDragging dragStart clientX clientY prev =
     (if \<not> isDragging then prev
      else let deltaX = clientX - fst dragStart; deltaY = clientY - snd dragStart
           in prev\<lparr> vp_x := vp_x prev + deltaX, vp_y := vp_y prev + deltaY \<rparr>)"

text \<open>The buttons: zoom in, zoom out, reset view.\<close>

definition Canvas_zoomIn :: "ViewPort \<Rightarrow> ViewPort" where
  "Canvas_zoomIn prev = prev\<lparr> vp_zoom := min 5 (vp_zoom prev * (3 / 2)) \<rparr>"

definition Canvas_zoomOut :: "ViewPort \<Rightarrow> ViewPort" where
  "Canvas_zoomOut prev = prev\<lparr> vp_zoom := max (1 / 10) (vp_zoom prev / (3 / 2)) \<rparr>"

definition Canvas_resetView :: ViewPort where
  "Canvas_resetView = \<lparr> vp_x = 0, vp_y = 0, vp_zoom = 1 \<rparr>"

text \<open>
  \<^verbatim>\<open>fitToView\<close>. \<open>width\<close> and \<open>height\<close> are \<^verbatim>\<open>canvasSize\<close>, set from
  \<^verbatim>\<open>Math.floor\<close> of the container's size. \<^verbatim>\<open>GameGrid\<close> mounts this component for more
  than 5,000 cells only, so \<open>rows\<close> and \<open>cols\<close> are positive and the divisors are not
  zero.
\<close>

definition Canvas_fitToView :: "nat \<Rightarrow> nat \<Rightarrow> nat \<Rightarrow> nat \<Rightarrow> ViewPort \<Rightarrow> ViewPort" where
  "Canvas_fitToView width height rows cols viewport =
     (if width = 0 \<or> height = 0 then viewport
      else let gridWidth = real cols * (Canvas_baseCellSize + 1);
               gridHeight = real rows * (Canvas_baseCellSize + 1);
               scaleX = real width / gridWidth;
               scaleY = real height / gridHeight;
               scale = min scaleX scaleY * (9 / 10);
               offsetX = (real width - gridWidth * scale) / 2;
               offsetY = (real height - gridHeight * scale) / 2
           in \<lparr> vp_x = offsetX, vp_y = offsetY, vp_zoom = scale \<rparr>)"

text \<open>
  The cell-space coordinate under a canvas point: the quotient that \<^verbatim>\<open>handleClick\<close>
  floors to find the column, \<^verbatim>\<open>(clientX - rect.left - viewport.x) / (cellSize + gap)\<close>,
  and its inverse, where \<^verbatim>\<open>drawGrid\<close> puts a column:
  \<^verbatim>\<open>viewport.x + col * (cellSize + gap)\<close>. Rows use the same formulas with
  \<^verbatim>\<open>viewport.y\<close>.
\<close>

definition Canvas_cellUnder :: "real \<Rightarrow> real \<Rightarrow> real \<Rightarrow> real" where
  "Canvas_cellUnder offset zoom mouse = (mouse - offset) / (Canvas_cellSize zoom + Canvas_gap zoom)"

definition Canvas_screenOf :: "real \<Rightarrow> real \<Rightarrow> real \<Rightarrow> real" where
  "Canvas_screenOf offset zoom cell = offset + cell * (Canvas_cellSize zoom + Canvas_gap zoom)"

section \<open>Camera operations of MobileOptimizedCanvas\<close>

text \<open>
  The pinch branch of \<^verbatim>\<open>handleTouchMove\<close> divides by the distance recorded on the
  previous frame, which can be zero. There JavaScript yields \<^verbatim>\<open>Infinity\<close> or
  \<^verbatim>\<open>NaN\<close>, so the numbers of this branch carry the non-finite values. Rounding is
  not modelled. The zero divisor is \<open>+0\<close>: the recorded distance is the text of a square
  root.
\<close>

datatype jsnum = Fin real | PosInf | NegInf | NaN

definition js_div :: "real \<Rightarrow> real \<Rightarrow> jsnum" where
  "js_div a b =
     (if b \<noteq> 0 then Fin (a / b)
      else if a > 0 then PosInf else if a < 0 then NegInf else NaN)"

fun js_sub :: "jsnum \<Rightarrow> real \<Rightarrow> jsnum" where
  "js_sub (Fin a) b = Fin (a - b)"
| "js_sub PosInf b = PosInf"
| "js_sub NegInf b = NegInf"
| "js_sub NaN b = NaN"

fun js_abs :: "jsnum \<Rightarrow> jsnum" where
  "js_abs (Fin a) = Fin \<bar>a\<bar>"
| "js_abs PosInf = PosInf"
| "js_abs NegInf = PosInf"
| "js_abs NaN = NaN"

fun js_gt :: "jsnum \<Rightarrow> real \<Rightarrow> bool" where
  "js_gt (Fin a) b = (a > b)"
| "js_gt PosInf b = True"
| "js_gt NegInf b = False"
| "js_gt NaN b = False"

fun js_mul :: "real \<Rightarrow> jsnum \<Rightarrow> jsnum" where
  "js_mul a (Fin b) = Fin (a * b)"
| "js_mul a PosInf = (if a > 0 then PosInf else if a < 0 then NegInf else NaN)"
| "js_mul a NegInf = (if a > 0 then NegInf else if a < 0 then PosInf else NaN)"
| "js_mul a NaN = NaN"

text \<open>\<^verbatim>\<open>Math.min\<close> and \<^verbatim>\<open>Math.max\<close> with a finite first argument; \<^verbatim>\<open>NaN\<close> is contagious.\<close>

fun js_min :: "real \<Rightarrow> jsnum \<Rightarrow> jsnum" where
  "js_min a (Fin b) = Fin (min a b)"
| "js_min a PosInf = Fin a"
| "js_min a NegInf = NegInf"
| "js_min a NaN = NaN"

fun js_max :: "real \<Rightarrow> jsnum \<Rightarrow> jsnum" where
  "js_max a (Fin b) = Fin (max a b)"
| "js_max a PosInf = PosInf"
| "js_max a NegInf = Fin a"
| "js_max a NaN = NaN"

text \<open>The viewport that the pinch branch stores: its zoom is a \<open>jsnum\<close>.\<close>

record ViewPortJS =
  vpj_x :: real
  vpj_y :: real
  vpj_zoom :: jsnum

definition toJS :: "ViewPort \<Rightarrow> ViewPortJS" where
  "toJS viewport = \<lparr> vpj_x = vp_x viewport, vpj_y = vp_y viewport, vpj_zoom = Fin (vp_zoom viewport) \<rparr>"

text \<open>
  \<^verbatim>\<open>Math.sqrt(Math.pow(touch2.clientX - touch1.clientX, 2) + Math.pow(touch2.clientY - touch1.clientY, 2))\<close>;
  a touch is its \<open>(clientX, clientY)\<close>.
\<close>

definition touchDistance :: "real \<times> real \<Rightarrow> real \<times> real \<Rightarrow> real" where
  "touchDistance touch1 touch2 =
     sqrt ((fst touch2 - fst touch1)\<^sup>2 + (snd touch2 - snd touch1)\<^sup>2)"

text \<open>
  The branch \<^verbatim>\<open>e.touches.length === 2\<close> of \<^verbatim>\<open>handleTouchMove\<close>. \<open>datasetLastDistance\<close> is
  \<^verbatim>\<open>canvas.dataset.lastDistance\<close>: \<open>None\<close> while the attribute is not set, else the
  number whose text it holds (the text of a number is never empty, so \<^verbatim>\<open>||\<close> falls
  back to the current distance exactly when the attribute is not set). The result is the
  stored viewport and the new \<^verbatim>\<open>dataset.lastDistance\<close>.
\<close>

definition handleTouchMove_pinch ::
    "ViewPort \<Rightarrow> real option \<Rightarrow> real \<times> real \<Rightarrow> real \<times> real \<Rightarrow> ViewPortJS \<times> real" where
  "handleTouchMove_pinch viewport datasetLastDistance touch1 touch2 =
     (let distance = touchDistance touch1 touch2;
          lastDistance = (case datasetLastDistance of None \<Rightarrow> distance | Some d \<Rightarrow> d);
          scale = js_div distance lastDistance
      in (if js_gt (js_abs (js_sub scale 1)) (1 / 100)
          then (let newZoom = js_max (1 / 10) (js_min 3 (js_mul (vp_zoom viewport) scale))
                in (toJS viewport)\<lparr> vpj_zoom := newZoom \<rparr>)
          else toJS viewport,
          distance))"

text \<open>
  The buttons of the touch canvas, and its \<^verbatim>\<open>fitToView\<close>, which has no guard.
  \<^verbatim>\<open>GameGrid\<close> mounts this component for more than 1,000 cells only, so \<open>rows\<close> and
  \<open>cols\<close> are positive.
\<close>

definition Mobile_zoomIn :: "ViewPort \<Rightarrow> ViewPort" where
  "Mobile_zoomIn prev = prev\<lparr> vp_zoom := min 2 (vp_zoom prev * (14 / 10)) \<rparr>"

definition Mobile_zoomOut :: "ViewPort \<Rightarrow> ViewPort" where
  "Mobile_zoomOut prev = prev\<lparr> vp_zoom := max (1 / 10) (vp_zoom prev / (14 / 10)) \<rparr>"

definition Mobile_fitToView :: "nat \<Rightarrow> nat \<Rightarrow> nat \<Rightarrow> nat \<Rightarrow> ViewPort" where
  "Mobile_fitToView width height rows cols =
     (let gridWidth = real cols * (Mobile_baseCellSize + 1 / 2);
          gridHeight = real rows * (Mobile_baseCellSize + 1 / 2);
          scaleX = real width / gridWidth;
          scaleY = real height / gridHeight;
          scale = min scaleX scaleY * (8 / 10);
          offsetX = (real width - gridWidth * scale) / 2;
          offsetY = (real height - gridHeight * scale) / 2
      in \<lparr> vp_x = offsetX, vp_y = offsetY, vp_zoom = scale \<rparr>)"

text \<open>
  The cell-space coordinate under a canvas point on the touch canvas, the quotient that
  \<^verbatim>\<open>handleTouchEnd\<close> floors; and the centre of the two touches of a pinch, in canvas
  coordinates.
\<close>

definition Mobile_cellUnder :: "real \<Rightarrow> real \<Rightarrow> real \<Rightarrow> real" where
  "Mobile_cellUnder offset zoom point = (point - offset) / (Mobile_cellSize zoom + Mobile_gap zoom)"

definition pinchCentroid :: "real \<times> real \<Rightarrow> real \<times> real \<Rightarrow> real \<times> real" where
  "pinchCentroid touch1 touch2 = ((fst touch1 + fst touch2) / 2, (snd touch1 + snd touch2) / 2)"

text \<open>A zoom value is a finite number within the given bounds.\<close>

fun zoomWithin :: "real \<Rightarrow> real \<Rightarrow> jsnum \<Rightarrow> bool" where
  "zoomWithin lo hi (Fin z) = (lo \<le> z \<and> z \<le> hi)"
| "zoomWithin lo hi PosInf = False"
| "zoomWithin lo hi NegInf = False"
| "zoomWithin lo hi NaN = False"

section \<open>Cell records and selection (GameGrid.tsx, MintingInterface.tsx, CanvasGameGrid)\<close>

text \<open>
  \<^verbatim>\<open>BlockData\<close>, with the fields the modelled code reads. \<^verbatim>\<open>ownerId\<close> is optional, as is
  the prop \<^verbatim>\<open>userAddress\<close> it is compared with.
\<close>

datatype BlockStatus = Unsold | Alive | Eliminated

record BlockData =
  blockId :: nat
  position :: "nat \<times> nat"
  status :: BlockStatus
  ownerId :: "string option"
  purchasePrice :: real

datatype Mode = View | Select | Reveal

text \<open>The calls \<^verbatim>\<open>onBlockSelect?.(blockId)\<close> and \<^verbatim>\<open>onBlockDeselect?.(blockId)\<close> a handler makes.\<close>

datatype Callback = OnBlockSelect nat | OnBlockDeselect nat

text \<open>\<^verbatim>\<open>getBlockPosition\<close> and \<^verbatim>\<open>getBlockStatusColor\<close> of the utilities.\<close>

definition getBlockPosition :: "nat \<Rightarrow> nat \<Rightarrow> nat \<times> nat" where
  "getBlockPosition index cols = (index div cols, index mod cols)"

definition getBlockStatusColor :: "BlockStatus \<Rightarrow> bool \<Rightarrow> string" where
  "getBlockStatusColor st isOwned =
     (if isOwned then ''border-yellow-400 bg-yellow-100''
      else case st of
        Alive \<Rightarrow> ''border-green-400 bg-green-100''
      | Eliminated \<Rightarrow> ''border-red-400 bg-red-100''
      | Unsold \<Rightarrow> ''border-gray-300 bg-gray-50'')"

text \<open>
  \<^verbatim>\<open>gridBlocks\<close> of the per-cell grid:
  \<^verbatim>\<open>Array.from({ length: totalBlocks }, (_, index) => blocks.find(block => block.blockId === index) || { ... })\<close>.
\<close>

definition gridBlocks :: "BlockData list \<Rightarrow> nat \<Rightarrow> nat \<Rightarrow> real \<Rightarrow> BlockData list" where
  "gridBlocks blocks totalBlocks cols blockPrice =
     map (\<lambda>index.
            case find (\<lambda>block. blockId block = index) blocks of
              Some block \<Rightarrow> block
            | None \<Rightarrow> \<lparr> blockId = index, position = getBlockPosition index cols, status = Unsold,
                        ownerId = None, purchasePrice = blockPrice \<rparr>)
         [0..<totalBlocks]"

text \<open>The colour of a cell of the per-cell grid: \<^verbatim>\<open>isOwned={block.ownerId === userAddress}\<close>.\<close>

definition Block_baseColor :: "BlockData \<Rightarrow> string option \<Rightarrow> string" where
  "Block_baseColor block userAddress =
     getBlockStatusColor (status block) (ownerId block = userAddress)"

text \<open>\<^verbatim>\<open>handleBlockClick\<close> of \<^verbatim>\<open>GameGrid\<close>.\<close>

definition handleBlockClick :: "Mode \<Rightarrow> BlockData list \<Rightarrow> nat set \<Rightarrow> nat \<Rightarrow> Callback list" where
  "handleBlockClick mode blocks selectedBlocks i =
     (if mode \<noteq> Select then []
      else case find (\<lambda>b. blockId b = i) blocks of
        None \<Rightarrow> []
      | Some block \<Rightarrow>
          if status block \<noteq> Unsold then []
          else if i \<in> selectedBlocks then [OnBlockDeselect i]
          else [OnBlockSelect i])"

text \<open>
  \<^verbatim>\<open>MintingInterface\<close> owns the selection set and passes \<^verbatim>\<open>handleBlockSelect\<close> and
  \<^verbatim>\<open>handleBlockDeselect\<close> as the callbacks, with \<^verbatim>\<open>mode="select"\<close>.
\<close>

definition handleBlockSelect :: "nat set \<Rightarrow> nat \<Rightarrow> nat set" where
  "handleBlockSelect prev i = prev \<union> {i}"

definition handleBlockDeselect :: "nat set \<Rightarrow> nat \<Rightarrow> nat set" where
  "handleBlockDeselect prev i = prev - {i}"

fun runCallback :: "nat set \<Rightarrow> Callback \<Rightarrow> nat set" where
  "runCallback prev (OnBlockSelect i) = handleBlockSelect prev i"
| "runCallback prev (OnBlockDeselect i) = handleBlockDeselect prev i"

definition MintingInterface_click :: "BlockData list \<Rightarrow> nat set \<Rightarrow> nat \<Rightarrow> nat set" where
  "MintingInterface_click blocks selectedBlocks i =
     foldl runCallback selectedBlocks (handleBlockClick Select blocks selectedBlocks i)"

text \<open>
  \<^verbatim>\<open>CanvasGameGrid\<close>: \<^verbatim>\<open>blockMap\<close> (a later record of an id replaces an earlier one), the
  fill colour of \<^verbatim>\<open>drawGrid\<close>, and \<^verbatim>\<open>handleClick\<close>, whose hit test is \<open>Canvas_hitCell\<close>.
\<close>

definition blockMap :: "BlockData list \<Rightarrow> (nat \<rightharpoonup> BlockData)" where
  "blockMap blocks = foldl (\<lambda>m block. m(blockId block \<mapsto> block)) Map.empty blocks"

definition Canvas_colors_unsold :: string where
  "Canvas_colors_unsold = ''#E5E7EB''"

definition Canvas_fillColor :: "BlockData option \<Rightarrow> string" where
  "Canvas_fillColor block =
     (case block of
        None \<Rightarrow> Canvas_colors_unsold
      | Some b \<Rightarrow>
          if status b = Alive then ''#10B981''
          else if status b = Eliminated then ''#EF4444''
          else Canvas_colors_unsold)"

definition Canvas_hitCell :: "ViewPort \<Rightarrow> nat \<Rightarrow> nat \<Rightarrow> real \<Rightarrow> real \<Rightarrow> real \<Rightarrow> real \<Rightarrow> nat option" where
  "Canvas_hitCell viewport rows cols clientX clientY rectLeft rectTop =
     (let cellSize = Canvas_cellSize (vp_zoom viewport); gap = Canvas_gap (vp_zoom viewport);
          x = clientX - rectLeft - vp_x viewport;
          y = clientY - rectTop - vp_y viewport;
          col = \<lfloor>x / (cellSize + gap)\<rfloor>;
          row = \<lfloor>y / (cellSize + gap)\<rfloor>
      in if row \<ge> 0 \<and> row < int rows \<and> col \<ge> 0 \<and> col < int cols
         then Some (nat (row * int cols + col)) else None)"

definition Canvas_handleClick ::
    "Mode \<Rightarrow> bool \<Rightarrow> ViewPort \<Rightarrow> nat \<Rightarrow> nat \<Rightarrow> BlockData list \<Rightarrow> nat set
      \<Rightarrow> real \<Rightarrow> real \<Rightarrow> real \<Rightarrow> real \<Rightarrow> Callback list" where
  "Canvas_handleClick mode isDragging viewport rows cols blocks selectedBlocks
       clientX clientY rectLeft rectTop =
     (if mode \<noteq> Select \<or> isDragging then []
      else case Canvas_hitCell viewport rows cols clientX clientY rectLeft rectTop of
        None \<Rightarrow> []
      | Some i \<Rightarrow>
          (case blockMap blocks i of
             None \<Rightarrow> []
           | Some block \<Rightarrow>
               if status block \<noteq> Unsold then []
               else if i \<in> selectedBlocks then [OnBlockDeselect i]
               else [OnBlockSelect i]))"

text \<open>A block list for examples: cell 0 is alive and owned, cell 1 is unsold, cells 2 and 3 have no record.\<close>

definition exampleBlocks :: "BlockData list" where
  "exampleBlocks =
     [\<lparr> blockId = 0, position = (0, 0), status = Alive, ownerId = Some ''player_1'', purchasePrice = 1 \<rparr>,
      \<lparr> blockId = 1, position = (0, 1), status = Unsold, ownerId = None, purchasePrice = 1 \<rparr>]"

section \<open>Elimination worker (vrf-worker.js)\<close>

text \<open>
  \<^verbatim>\<open>generateBlockRandomness\<close>. The seed is a string, here of 8-bit characters, whose
  \<^verbatim>\<open>charCodeAt\<close> is \<open>of_char\<close>; the round number and the block id are non-negative
  integers, which the template literal writes in decimal. \<^verbatim>\<open>hash << 5\<close> and
  \<^verbatim>\<open>hash & hash\<close> convert to a 32-bit signed integer.
\<close>

definition digitChar :: "nat \<Rightarrow> char" where
  "digitChar d = char_of (48 + d)"

function toDecimal :: "nat \<Rightarrow> string" where
  "toDecimal n = (if n < 10 then [digitChar n] else toDecimal (n div 10) @ [digitChar (n mod 10)])"
  by pat_completeness auto
termination
  by (relation "measure id") auto

definition ToInt32 :: "int \<Rightarrow> int" where
  "ToInt32 v = sint (word_of_int v :: 32 word)"

definition hashStep :: "int \<Rightarrow> char \<Rightarrow> int" where
  "hashStep hash c =
     (let char = int (of_char c :: nat);
          hash1 = (ToInt32 (hash * 2 ^ 5) - hash) + char
      in ToInt32 hash1)"

definition generateBlockRandomness :: "string \<Rightarrow> nat \<Rightarrow> nat \<Rightarrow> real" where
  "generateBlockRandomness seed roundNumber i =
     (let combined = seed @ ''_'' @ toDecimal roundNumber @ ''_'' @ toDecimal i;
          hash = foldl hashStep 0 combined
      in real_of_int \<bar>hash\<bar> / 2147483647)"

text \<open>
  \<^verbatim>\<open>calculateEliminations\<close>: the loop pushes one entry per block id; the value is the
  \<^verbatim>\<open>data\<close> of the posted message, \<open>(results, roundNumber, eliminationRate)\<close>.
\<close>

record EliminationResult =
  res_blockId :: nat
  res_eliminated :: bool
  res_vrfValue :: real

definition pushResult :: "string \<Rightarrow> nat \<Rightarrow> real \<Rightarrow> EliminationResult list \<Rightarrow> nat \<Rightarrow> EliminationResult list" where
  "pushResult seed roundNumber eliminationRate results i =
     (let vrfValue = generateBlockRandomness seed roundNumber i;
          eliminated = (vrfValue < eliminationRate)
      in results @ [\<lparr> res_blockId = i, res_eliminated = eliminated, res_vrfValue = vrfValue \<rparr>])"

definition calculateEliminations ::
    "string \<Rightarrow> nat \<Rightarrow> nat list \<Rightarrow> real \<Rightarrow> EliminationResult list \<times> nat \<times> real" where
  "calculateEliminations seed roundNumber blockIds eliminationRate =
     (foldl (pushResult seed roundNumber eliminationRate) [] blockIds, roundNumber, eliminationRate)"

section \<open>Theorems\<close>

text \<open>
  C3. The backend that \<^verbatim>\<open>GameGrid\<close> dispatches to depends on the grid only through
  the total cell count and on the window only through the device class, and it is the
  backend of the selection table: per-cell markup up to 1,000 cells on both device
  classes; above 1,000 and up to 5,000 cells virtualized markup on desktop and the touch
  canvas on touch; above 5,000 cells the desktop canvas on desktop and the touch canvas
  on touch. A 200,000-cell grid (400 by 500) on a 390 pixel wide window gets the touch
  canvas.
\<close>

theorem GameGrid_backend_table:
  "GameGrid_backend rows cols innerWidth = spec_select (rows * cols) (deviceClassOf innerWidth)
   \<and> spec_select 200000 Touch = MobileOptimizedCanvas
   \<and> GameGrid_backend 400 500 (Some 390) = MobileOptimizedCanvas"
  by (simp add: GameGrid_backend_def spec_select_def deviceClassOf_def isMobile_def Let_def)

subsection \<open>The cell pitch is positive\<close>

lemma Canvas_pitch_pos: "0 < Canvas_pitch z"
  by (simp add: Canvas_pitch_def Canvas_cellSize_def Canvas_gap_def max_def)

lemma Mobile_pitch_pos: "0 < Mobile_pitch z"
  by (simp add: Mobile_pitch_def Mobile_cellSize_def Mobile_gap_def max_def)

subsection \<open>The loops of drawGrid\<close>

lemma length_loopCells:
  "length (loopCells a) = nat (visibleEndY a - visibleStartY a) * nat (visibleEndX a - visibleStartX a)"
  by (simp add: loopCells_def length_concat comp_def sum_list_triv)


subsection \<open>How many columns and rows the bounds span\<close>

lemma ceiling_minus_floor_le:
  fixes a c :: real
  shows "\<lceil>a + c\<rceil> - \<lfloor>a\<rfloor> \<le> \<lceil>c\<rceil> + 1"
  by linarith

lemma clamped_span_le:
  fixes s e n B :: int
  assumes "e - s \<le> B"
  shows "nat (min n e - max 0 s) \<le> nat B"
  using assms by linarith

lemma Mobile_span:
  fixes w :: nat and v p :: real
  assumes "0 < p"
  shows "nat (min n \<lceil>(real w - v + 20) / p\<rceil> - max 0 \<lfloor>(- v - 20) / p\<rfloor>)
         \<le> nat (\<lceil>real w / p + 2 * (20 / p)\<rceil> + 1)"
proof -
  have "(real w - v + 20) / p = (- v - 20) / p + (real w / p + 2 * (20 / p))"
    by (simp add: add_divide_distrib diff_divide_distrib)
  then have "\<lceil>(real w - v + 20) / p\<rceil> - \<lfloor>(- v - 20) / p\<rfloor> \<le> \<lceil>real w / p + 2 * (20 / p)\<rceil> + 1"
    using ceiling_minus_floor_le [of "(- v - 20) / p" "real w / p + 2 * (20 / p)"] by simp
  then show ?thesis by (rule clamped_span_le)
qed

lemma Canvas_span:
  fixes w :: nat and v p :: real
  assumes "0 < p"
  shows "nat (min n (\<lceil>(real w - v) / p\<rceil> + 1) - max 0 \<lfloor>- v / p\<rfloor>)
         \<le> nat (\<lceil>real w / p\<rceil> + 2)"
proof -
  have "(real w - v) / p = - v / p + real w / p"
    by (simp add: diff_divide_distrib)
  then have "\<lceil>(real w - v) / p\<rceil> + 1 - \<lfloor>- v / p\<rfloor> \<le> \<lceil>real w / p\<rceil> + 2"
    using ceiling_minus_floor_le [of "- v / p" "real w / p"] by simp
  then show ?thesis by (rule clamped_span_le)
qed

subsection \<open>The bounds lie in the grid\<close>










subsection \<open>Cells of a grid that is off-screen fail the in-canvas test\<close>










text \<open>
  C2 (amended). For every grid size, canvas size, camera offset and zoom, the loops of the
  touch canvas visit at most
  \<open>(\<lceil>H/p + 2 * bufferCells\<rceil> + 1) * (\<lceil>W/p + 2 * bufferCells\<rceil> + 1)\<close> cells, where
  \<open>p\<close> is the pitch and \<open>bufferCells = 20 / p\<close>, and the loops of the desktop canvas,
  which has no pixel buffer and adds one column and one row at the far end, visit at most
  \<open>(\<lceil>H/p\<rceil> + 2) * (\<lceil>W/p\<rceil> + 2)\<close> cells. Neither bound mentions \<open>rows\<close> or
  \<open>cols\<close>.
\<close>

theorem culling_bound:
  "length (loopCells (Mobile_visibleArea viewport rows cols width height))
     \<le> nat (\<lceil>real height / Mobile_pitch (vp_zoom viewport) + 2 * Mobile_bufferCells (vp_zoom viewport)\<rceil> + 1)
       * nat (\<lceil>real width / Mobile_pitch (vp_zoom viewport) + 2 * Mobile_bufferCells (vp_zoom viewport)\<rceil> + 1)
   \<and> length (loopCells (Canvas_visibleArea viewport rows cols width height))
     \<le> nat (\<lceil>real height / Canvas_pitch (vp_zoom viewport)\<rceil> + 2)
       * nat (\<lceil>real width / Canvas_pitch (vp_zoom viewport)\<rceil> + 2)"
proof
  let ?z = "vp_zoom viewport"
  let ?a = "Mobile_visibleArea viewport rows cols width height"
  have p: "0 < Mobile_cellSize ?z + Mobile_gap ?z"
    using Mobile_pitch_pos [of ?z] by (simp add: Mobile_pitch_def)
  have y: "nat (visibleEndY ?a - visibleStartY ?a)
      \<le> nat (\<lceil>real height / Mobile_pitch ?z + 2 * Mobile_bufferCells ?z\<rceil> + 1)"
    using Mobile_span [OF p, of "int rows" height "vp_y viewport"]
    by (simp add: Mobile_visibleArea_def Let_def Mobile_buffer_def Mobile_bufferCells_def
        Mobile_pitch_def)
  have x: "nat (visibleEndX ?a - visibleStartX ?a)
      \<le> nat (\<lceil>real width / Mobile_pitch ?z + 2 * Mobile_bufferCells ?z\<rceil> + 1)"
    using Mobile_span [OF p, of "int cols" width "vp_x viewport"]
    by (simp add: Mobile_visibleArea_def Let_def Mobile_buffer_def Mobile_bufferCells_def
        Mobile_pitch_def)
  show "length (loopCells ?a)
     \<le> nat (\<lceil>real height / Mobile_pitch ?z + 2 * Mobile_bufferCells ?z\<rceil> + 1)
       * nat (\<lceil>real width / Mobile_pitch ?z + 2 * Mobile_bufferCells ?z\<rceil> + 1)"
    unfolding length_loopCells by (rule mult_le_mono [OF y x])
next
  let ?z = "vp_zoom viewport"
  let ?a = "Canvas_visibleArea viewport rows cols width height"
  have p: "0 < Canvas_cellSize ?z + Canvas_gap ?z"
    using Canvas_pitch_pos [of ?z] by (simp add: Canvas_pitch_def)
  have y: "nat (visibleEndY ?a - visibleStartY ?a) \<le> nat (\<lceil>real height / Canvas_pitch ?z\<rceil> + 2)"
    using Canvas_span [OF p, of "int rows" height "vp_y viewport"]
    by (simp add: Canvas_visibleArea_def Let_def Canvas_pitch_def)
  have x: "nat (visibleEndX ?a - visibleStartX ?a) \<le> nat (\<lceil>real width / Canvas_pitch ?z\<rceil> + 2)"
    using Canvas_span [OF p, of "int cols" width "vp_x viewport"]
    by (simp add: Canvas_visibleArea_def Let_def Canvas_pitch_def)
  show "length (loopCells ?a)
     \<le> nat (\<lceil>real height / Canvas_pitch ?z\<rceil> + 2) * nat (\<lceil>real width / Canvas_pitch ?z\<rceil> + 2)"
    unfolding length_loopCells by (rule mult_le_mono [OF y x])
qed

text \<open>
  The bound of the claim, without the additional column and row, fails: on a 100 by 100
  grid and a 350 by 350 canvas at zoom 1 (pitch 7) with offset \<open>(-23.5, -23.5)\<close> the
  loops of the touch canvas visit 57 * 57 cells, and the bound is 56 * 56.
\<close>

theorem culling_bound_counterexample:
  "\<not> length (loopCells (Mobile_visibleArea \<lparr>vp_x = - 47 / 2, vp_y = - 47 / 2, vp_zoom = 1\<rparr> 100 100 350 350))
     \<le> nat (\<lceil>350 / Mobile_pitch 1 + 2 * Mobile_bufferCells 1\<rceil>)
       * nat (\<lceil>350 / Mobile_pitch 1 + 2 * Mobile_bufferCells 1\<rceil>)"
  by (simp add: length_loopCells Mobile_visibleArea_def Let_def Mobile_buffer_def Mobile_pitch_def
      Mobile_cellSize_def Mobile_gap_def Mobile_baseCellSize_def Mobile_bufferCells_def)

subsection \<open>Wheel zoom\<close>

text \<open>
  From zoom 1 upwards the pitch is \<open>9 * zoom\<close>, and there the offset that
  \<^verbatim>\<open>handleWheel\<close> computes keeps the cell-space point under the cursor in place.
\<close>

lemma Canvas_pitch_linear:
  assumes "1 \<le> z"
  shows "Canvas_cellSize z + Canvas_gap z = 9 * z"
  using assms by (simp add: Canvas_cellSize_def Canvas_gap_def Canvas_baseCellSize_def max_def)

lemma anchor_when_pitch_linear:
  fixes m v z z' :: real
  assumes "0 < z" "0 < z'"
  shows "(m - (m - (m - v) * (z' / z))) / (9 * z') = (m - v) / (9 * z)"
  using assms by (simp add: field_simps)

lemma wheel_zoom_anchor_above_one:
  assumes z: "1 \<le> vp_zoom viewport"
    and z': "1 \<le> vp_zoom (Canvas_handleWheel viewport deltaY clientX clientY rectLeft rectTop)"
  shows "Canvas_cellUnder (vp_x (Canvas_handleWheel viewport deltaY clientX clientY rectLeft rectTop))
           (vp_zoom (Canvas_handleWheel viewport deltaY clientX clientY rectLeft rectTop))
           (clientX - rectLeft)
         = Canvas_cellUnder (vp_x viewport) (vp_zoom viewport) (clientX - rectLeft)"
proof -
  let ?n = "max (1 / 10) (min 5 (vp_zoom viewport * (1 - deltaY * (1 / 10) * (1 / 100))))"
  have n: "vp_zoom (Canvas_handleWheel viewport deltaY clientX clientY rectLeft rectTop) = ?n"
    by (simp add: Canvas_handleWheel_def Let_def)
  have x: "vp_x (Canvas_handleWheel viewport deltaY clientX clientY rectLeft rectTop)
      = (clientX - rectLeft) - ((clientX - rectLeft) - vp_x viewport) * (?n / vp_zoom viewport)"
    by (simp add: Canvas_handleWheel_def Let_def)
  have n1: "1 \<le> ?n" using z' n by simp
  have "Canvas_cellUnder ((clientX - rectLeft) - ((clientX - rectLeft) - vp_x viewport) * (?n / vp_zoom viewport)) ?n (clientX - rectLeft)
      = Canvas_cellUnder (vp_x viewport) (vp_zoom viewport) (clientX - rectLeft)"
    unfolding Canvas_cellUnder_def Canvas_pitch_linear [OF z] Canvas_pitch_linear [OF n1]
    using z n1 by (intro anchor_when_pitch_linear) linarith+
  then show ?thesis by (simp only: n x)
qed

text \<open>
  C1. The claim is that after a wheel zoom the cell-space point that was under the cursor
  is still under it. Below zoom 1 the gap stays 1 pixel (and below zoom 1/4 the cell 2
  pixels), the pitch is no longer proportional to the zoom, and the offset that
  \<^verbatim>\<open>handleWheel\<close> computes from the zoom ratio moves the point. At the initial camera
  \<open>(0, 0, zoom 1)\<close>, cursor at \<open>(90, 90)\<close> and \<^verbatim>\<open>deltaY = 500\<close> (factor 0.5) the
  handler stores \<open>(45, 45, zoom 0.5)\<close>: cell coordinate 10 was under the cursor, cell
  coordinate 9 is under it afterwards, and cell coordinate 10 is drawn at pixel 95.
\<close>

theorem wheel_zoom_anchor_drift:
  "Canvas_handleWheel \<lparr>vp_x = 0, vp_y = 0, vp_zoom = 1\<rparr> 500 90 90 0 0
     = \<lparr>vp_x = 45, vp_y = 45, vp_zoom = 1 / 2\<rparr>
   \<and> Canvas_cellUnder 0 1 90 = 10
   \<and> Canvas_cellUnder 45 (1 / 2) 90 = 9
   \<and> Canvas_cellUnder 45 (1 / 2) 90 \<noteq> Canvas_cellUnder 0 1 90
   \<and> Canvas_screenOf 45 (1 / 2) 10 = 95"
  by (simp add: Canvas_handleWheel_def Canvas_cellUnder_def Canvas_screenOf_def Let_def
      Canvas_cellSize_def Canvas_gap_def Canvas_baseCellSize_def)

subsection \<open>Pinch zoom\<close>

lemma sqrt_40000: "sqrt 40000 = 200"
  by (rule real_sqrt_unique) simp_all

lemma touchDistance_example: "touchDistance (100, 0) (300, 0) = 200"
  by (simp add: touchDistance_def sqrt_40000)

lemma touchDistance_same: "touchDistance (100, 0) (100, 0) = 0"
  by (simp add: touchDistance_def)

text \<open>
  C5 (amended). In the pinch branch, with a non-zero recorded distance, on a frame where
  the ratio \<open>factor = currentDistance / previousDistance\<close> satisfies
  \<open>\<bar>factor - 1\<bar> > 0.01\<close> the zoom becomes \<open>clamp (zoom * factor) 0.1 3\<close> and the
  offsets are left as they are: the zoom is not anchored at the pinch centroid (nor
  anywhere else than the grid origin). On a frame within the threshold the camera is left
  unchanged. Either way the current distance is recorded.
\<close>

theorem pinch_zoom_keeps_offset:
  assumes "d \<noteq> 0"
  shows "handleTouchMove_pinch viewport (Some d) touch1 touch2 =
     (if \<bar>touchDistance touch1 touch2 / d - 1\<bar> > 1 / 100
      then \<lparr> vpj_x = vp_x viewport, vpj_y = vp_y viewport,
             vpj_zoom = Fin (max (1 / 10) (min 3 (vp_zoom viewport * (touchDistance touch1 touch2 / d)))) \<rparr>
      else toJS viewport,
      touchDistance touch1 touch2)"
  using assms by (simp add: handleTouchMove_pinch_def Let_def js_div_def toJS_def)

text \<open>Touches 200 apart after 100 apart double the zoom; after 200 apart nothing changes.\<close>

theorem pinch_zoom_keeps_offset_witness:
  "(100 :: real) \<noteq> 0
   \<and> handleTouchMove_pinch \<lparr>vp_x = 0, vp_y = 0, vp_zoom = 1\<rparr> (Some 100) (100, 0) (300, 0)
       = (\<lparr>vpj_x = 0, vpj_y = 0, vpj_zoom = Fin 2\<rparr>, 200)
   \<and> handleTouchMove_pinch \<lparr>vp_x = 0, vp_y = 0, vp_zoom = 1\<rparr> (Some 200) (100, 0) (300, 0)
       = (toJS \<lparr>vp_x = 0, vp_y = 0, vp_zoom = 1\<rparr>, 200)"
  using pinch_zoom_keeps_offset [of 100 "\<lparr>vp_x = 0, vp_y = 0, vp_zoom = 1\<rparr>" "(100, 0)" "(300, 0)"]
    pinch_zoom_keeps_offset [of 200 "\<lparr>vp_x = 0, vp_y = 0, vp_zoom = 1\<rparr>" "(100, 0)" "(300, 0)"]
  by (simp add: touchDistance_example)

text \<open>
  The claim as stated fails: with the camera at \<open>(0, 0, zoom 1)\<close> and the touches at
  \<open>(100, 0)\<close> and \<open>(300, 0)\<close> after a recorded distance of 100, the zoom doubles with
  the offset still \<open>(0, 0)\<close>, and the cell coordinate under the centroid
  \<open>(200, 0)\<close> changes from \<open>200/7\<close> to \<open>100/7\<close>.
\<close>

theorem pinch_centroid_counterexample:
  "fst (handleTouchMove_pinch \<lparr>vp_x = 0, vp_y = 0, vp_zoom = 1\<rparr> (Some 100) (100, 0) (300, 0))
     = \<lparr>vpj_x = 0, vpj_y = 0, vpj_zoom = Fin 2\<rparr>
   \<and> pinchCentroid (100, 0) (300, 0) = (200, 0)
   \<and> Mobile_cellUnder 0 1 200 = 200 / 7
   \<and> Mobile_cellUnder 0 2 200 = 100 / 7
   \<and> Mobile_cellUnder 0 2 200 \<noteq> Mobile_cellUnder 0 1 200"
  by (simp add: handleTouchMove_pinch_def Let_def js_div_def toJS_def touchDistance_example
      pinchCentroid_def Mobile_cellUnder_def Mobile_cellSize_def Mobile_gap_def
      Mobile_baseCellSize_def)

subsection \<open>Pinch zoom and a zero distance\<close>

lemma touchDistance_nonneg: "0 \<le> touchDistance touch1 touch2"
  by (simp add: touchDistance_def)

text \<open>
  C6 (amended). The pinch branch guards a missing previous distance only: when none is
  recorded, the current distance stands in for it and the frame leaves the camera
  unchanged. A recorded previous distance of zero is not guarded. When the current
  distance is zero too, the ratio is \<^verbatim>\<open>NaN\<close>, which fails the threshold test, and the
  camera is left unchanged; when the current distance is positive, the ratio is
  \<^verbatim>\<open>Infinity\<close> and (for a positive zoom) the zoom is set to its upper bound 3, the
  offsets unchanged. In every case the current distance is recorded.
\<close>

theorem pinch_zero_distance:
  "fst (handleTouchMove_pinch viewport None touch1 touch2) = toJS viewport
   \<and> (touchDistance touch1 touch2 = 0 \<longrightarrow>
        fst (handleTouchMove_pinch viewport (Some 0) touch1 touch2) = toJS viewport)
   \<and> (touchDistance touch1 touch2 \<noteq> 0 \<and> 0 < vp_zoom viewport \<longrightarrow>
        fst (handleTouchMove_pinch viewport (Some 0) touch1 touch2)
          = \<lparr> vpj_x = vp_x viewport, vpj_y = vp_y viewport, vpj_zoom = Fin 3 \<rparr>)
   \<and> snd (handleTouchMove_pinch viewport datasetLastDistance touch1 touch2)
        = touchDistance touch1 touch2"
proof (intro conjI impI)
  show "fst (handleTouchMove_pinch viewport None touch1 touch2) = toJS viewport"
    by (simp add: handleTouchMove_pinch_def Let_def js_div_def)
next
  assume "touchDistance touch1 touch2 = 0"
  then show "fst (handleTouchMove_pinch viewport (Some 0) touch1 touch2) = toJS viewport"
    by (simp add: handleTouchMove_pinch_def Let_def js_div_def)
next
  assume a: "touchDistance touch1 touch2 \<noteq> 0 \<and> 0 < vp_zoom viewport"
  then have "0 < touchDistance touch1 touch2"
    using touchDistance_nonneg [of touch1 touch2] by linarith
  with a show "fst (handleTouchMove_pinch viewport (Some 0) touch1 touch2)
      = \<lparr> vpj_x = vp_x viewport, vpj_y = vp_y viewport, vpj_zoom = Fin 3 \<rparr>"
    by (simp add: handleTouchMove_pinch_def Let_def js_div_def toJS_def)
next
  show "snd (handleTouchMove_pinch viewport datasetLastDistance touch1 touch2)
      = touchDistance touch1 touch2"
    by (simp add: handleTouchMove_pinch_def Let_def)
qed

text \<open>Both touches on one point after a zero distance; touches 200 apart after a zero distance.\<close>

theorem pinch_zero_distance_witness:
  "touchDistance (100, 0) (100, 0) = 0
   \<and> fst (handleTouchMove_pinch \<lparr>vp_x = 5, vp_y = 7, vp_zoom = 1\<rparr> (Some 0) (100, 0) (100, 0))
       = toJS \<lparr>vp_x = 5, vp_y = 7, vp_zoom = 1\<rparr>
   \<and> touchDistance (100, 0) (300, 0) \<noteq> 0
   \<and> (0 :: real) < vp_zoom \<lparr>vp_x = 5, vp_y = 7, vp_zoom = 1\<rparr>
   \<and> fst (handleTouchMove_pinch \<lparr>vp_x = 5, vp_y = 7, vp_zoom = 1\<rparr> (Some 0) (100, 0) (300, 0))
       = \<lparr>vpj_x = 5, vpj_y = 7, vpj_zoom = Fin 3\<rparr>"
  using pinch_zero_distance [of "\<lparr>vp_x = 5, vp_y = 7, vp_zoom = 1\<rparr>" "(100, 0)" "(100, 0)"]
    pinch_zero_distance [of "\<lparr>vp_x = 5, vp_y = 7, vp_zoom = 1\<rparr>" "(100, 0)" "(300, 0)"]
  by (simp add: touchDistance_example touchDistance_same)

text \<open>
  The claim as stated fails: after a recorded distance of zero, touches 200 apart change
  the zoom from 1 to 3.
\<close>

theorem pinch_zero_distance_counterexample:
  "fst (handleTouchMove_pinch \<lparr>vp_x = 0, vp_y = 0, vp_zoom = 1\<rparr> (Some 0) (100, 0) (300, 0))
     = \<lparr>vpj_x = 0, vpj_y = 0, vpj_zoom = Fin 3\<rparr>
   \<and> fst (handleTouchMove_pinch \<lparr>vp_x = 0, vp_y = 0, vp_zoom = 1\<rparr> (Some 0) (100, 0) (300, 0))
     \<noteq> toJS \<lparr>vp_x = 0, vp_y = 0, vp_zoom = 1\<rparr>"
  by (simp add: handleTouchMove_pinch_def Let_def js_div_def toJS_def touchDistance_example)


subsection \<open>Zoom bounds\<close>

lemma pinch_zoom_within:
  assumes "1 / 10 \<le> vp_zoom viewport" "vp_zoom viewport \<le> 3"
  shows "zoomWithin (1 / 10) 3 (vpj_zoom (fst (handleTouchMove_pinch viewport datasetLastDistance touch1 touch2)))"
proof -
  define scale where "scale = js_div (touchDistance touch1 touch2)
    (case datasetLastDistance of None \<Rightarrow> touchDistance touch1 touch2 | Some d \<Rightarrow> d)"
  have pos: "0 < vp_zoom viewport" using assms(1) by linarith
  have clamp: "zoomWithin (1 / 10) 3 (js_max (1 / 10) (js_min 3 (js_mul (vp_zoom viewport) s)))"
    if "s \<noteq> NaN" for s
    using that pos by (cases s) auto
  show ?thesis
  proof (cases "js_gt (js_abs (js_sub scale 1)) (1 / 100)")
    case True
    then have "scale \<noteq> NaN" by auto
    then have "zoomWithin (1 / 10) 3 (js_max (1 / 10) (js_min 3 (js_mul (vp_zoom viewport) scale)))"
      by (rule clamp)
    with True show ?thesis
      by (simp add: handleTouchMove_pinch_def Let_def scale_def toJS_def)
  next
    case False
    then show ?thesis
      using assms by (simp add: handleTouchMove_pinch_def Let_def scale_def toJS_def)
  qed
qed

text \<open>
  C9 (amended). Wheel zoom always stores a zoom within \<open>[0.1, 5]\<close>, and reset stores
  zoom 1. The zoom buttons of the desktop canvas keep a zoom that is within \<open>[0.1, 5]\<close>
  within it; pinch zoom and the zoom buttons of the touch canvas keep a zoom that is
  within \<open>[0.1, 3]\<close> within it. \<^verbatim>\<open>fitToView\<close> stores the fit scale
  \<open>min (W / gridWidth) (H / gridHeight) * 0.9\<close> (\<open>* 0.8\<close> on the touch canvas) as it
  is, without clamping, so after it the zoom can lie outside the bounds. The offsets are
  unconstrained: a drag adds the pointer's movement to them and leaves the zoom alone.
\<close>

theorem zoom_bounds:
  "1 / 10 \<le> vp_zoom (Canvas_handleWheel viewport deltaY clientX clientY rectLeft rectTop)
   \<and> vp_zoom (Canvas_handleWheel viewport deltaY clientX clientY rectLeft rectTop) \<le> 5
   \<and> vp_zoom Canvas_resetView = 1
   \<and> (1 / 10 \<le> vp_zoom viewport \<and> vp_zoom viewport \<le> 5 \<longrightarrow>
        1 / 10 \<le> vp_zoom (Canvas_zoomIn viewport) \<and> vp_zoom (Canvas_zoomIn viewport) \<le> 5
        \<and> 1 / 10 \<le> vp_zoom (Canvas_zoomOut viewport) \<and> vp_zoom (Canvas_zoomOut viewport) \<le> 5)
   \<and> (1 / 10 \<le> vp_zoom viewport \<and> vp_zoom viewport \<le> 3 \<longrightarrow>
        zoomWithin (1 / 10) 3
          (vpj_zoom (fst (handleTouchMove_pinch viewport datasetLastDistance touch1 touch2)))
        \<and> 1 / 10 \<le> vp_zoom (Mobile_zoomIn viewport) \<and> vp_zoom (Mobile_zoomIn viewport) \<le> 3
        \<and> 1 / 10 \<le> vp_zoom (Mobile_zoomOut viewport) \<and> vp_zoom (Mobile_zoomOut viewport) \<le> 3)
   \<and> (width \<noteq> 0 \<and> height \<noteq> 0 \<longrightarrow>
        vp_zoom (Canvas_fitToView width height rows cols viewport)
          = min (real width / (real cols * 9)) (real height / (real rows * 9)) * (9 / 10))
   \<and> vp_zoom (Mobile_fitToView width height rows cols)
        = min (real width / (real cols * (13 / 2))) (real height / (real rows * (13 / 2))) * (8 / 10)
   \<and> Canvas_handleMouseMove True (startX, startY) clientX clientY viewport
        = viewport\<lparr> vp_x := vp_x viewport + (clientX - startX),
                       vp_y := vp_y viewport + (clientY - startY) \<rparr>"
proof (intro conjI impI)
  show "1 / 10 \<le> vp_zoom (Canvas_handleWheel viewport deltaY clientX clientY rectLeft rectTop)"
    by (simp add: Canvas_handleWheel_def Let_def)
  show "vp_zoom (Canvas_handleWheel viewport deltaY clientX clientY rectLeft rectTop) \<le> 5"
    by (simp add: Canvas_handleWheel_def Let_def)
  show "vp_zoom Canvas_resetView = 1"
    by (simp add: Canvas_resetView_def)
next
  assume "1 / 10 \<le> vp_zoom viewport \<and> vp_zoom viewport \<le> 5"
  then show "1 / 10 \<le> vp_zoom (Canvas_zoomIn viewport)" "vp_zoom (Canvas_zoomIn viewport) \<le> 5"
    "1 / 10 \<le> vp_zoom (Canvas_zoomOut viewport)" "vp_zoom (Canvas_zoomOut viewport) \<le> 5"
    by (simp_all add: Canvas_zoomIn_def Canvas_zoomOut_def)
next
  assume a: "1 / 10 \<le> vp_zoom viewport \<and> vp_zoom viewport \<le> 3"
  then show "zoomWithin (1 / 10) 3
      (vpj_zoom (fst (handleTouchMove_pinch viewport datasetLastDistance touch1 touch2)))"
    by (simp add: pinch_zoom_within)
  from a show "1 / 10 \<le> vp_zoom (Mobile_zoomIn viewport)" "vp_zoom (Mobile_zoomIn viewport) \<le> 3"
    "1 / 10 \<le> vp_zoom (Mobile_zoomOut viewport)" "vp_zoom (Mobile_zoomOut viewport) \<le> 3"
    by (simp_all add: Mobile_zoomIn_def Mobile_zoomOut_def)
next
  assume "width \<noteq> 0 \<and> height \<noteq> 0"
  then show "vp_zoom (Canvas_fitToView width height rows cols viewport)
      = min (real width / (real cols * 9)) (real height / (real rows * 9)) * (9 / 10)"
    by (simp add: Canvas_fitToView_def Let_def Canvas_baseCellSize_def)
next
  show "vp_zoom (Mobile_fitToView width height rows cols)
      = min (real width / (real cols * (13 / 2))) (real height / (real rows * (13 / 2))) * (8 / 10)"
    by (simp add: Mobile_fitToView_def Let_def Mobile_baseCellSize_def)
  show "Canvas_handleMouseMove True (startX, startY) clientX clientY viewport
      = viewport\<lparr> vp_x := vp_x viewport + (clientX - startX),
                     vp_y := vp_y viewport + (clientY - startY) \<rparr>"
    by (simp add: Canvas_handleMouseMove_def Let_def)
qed

text \<open>The camera \<open>(0, 0, zoom 1)\<close>, and a 100 by 100 grid fitted to an 800 by 600 canvas.\<close>

theorem zoom_bounds_witness:
  "(1 / 10 :: real) \<le> vp_zoom \<lparr>vp_x = 0, vp_y = 0, vp_zoom = 1\<rparr>
   \<and> vp_zoom \<lparr>vp_x = 0, vp_y = 0, vp_zoom = 1\<rparr> \<le> (3 :: real)
   \<and> (800 :: nat) \<noteq> 0 \<and> (600 :: nat) \<noteq> 0
   \<and> vp_zoom (Canvas_zoomIn \<lparr>vp_x = 0, vp_y = 0, vp_zoom = 1\<rparr>) \<le> 5
   \<and> 1 / 10 \<le> vp_zoom (Mobile_zoomOut \<lparr>vp_x = 0, vp_y = 0, vp_zoom = 1\<rparr>)
   \<and> zoomWithin (1 / 10) 3
        (vpj_zoom (fst (handleTouchMove_pinch \<lparr>vp_x = 0, vp_y = 0, vp_zoom = 1\<rparr> (Some 0) (100, 0) (300, 0))))
   \<and> vp_zoom (Canvas_fitToView 800 600 100 100 \<lparr>vp_x = 0, vp_y = 0, vp_zoom = 1\<rparr>) = 3 / 5"
  using zoom_bounds [where viewport = "\<lparr>vp_x = 0, vp_y = 0, vp_zoom = 1\<rparr>"
      and datasetLastDistance = "Some 0" and ?touch1.0 = "(100, 0)" and ?touch2.0 = "(300, 0)"
      and width = 800 and height = 600 and rows = 100 and cols = 100]
  by simp

text \<open>
  The claim as stated fails for \<^verbatim>\<open>fitToView\<close>: a 1000 by 1000 grid on an 800 by 600
  canvas gets zoom 0.06, and a 400 by 500 grid on a 350 by 350 touch canvas gets zoom
  \<open>28/325\<close>, both below 0.1.
\<close>

theorem zoom_bounds_counterexample:
  "vp_zoom (Canvas_fitToView 800 600 1000 1000 \<lparr>vp_x = 0, vp_y = 0, vp_zoom = 1\<rparr>) = 3 / 50
   \<and> \<not> 1 / 10 \<le> vp_zoom (Canvas_fitToView 800 600 1000 1000 \<lparr>vp_x = 0, vp_y = 0, vp_zoom = 1\<rparr>)
   \<and> vp_zoom (Mobile_fitToView 350 350 400 500) = 28 / 325
   \<and> \<not> 1 / 10 \<le> vp_zoom (Mobile_fitToView 350 350 400 500)"
  by (simp add: Canvas_fitToView_def Mobile_fitToView_def Let_def Canvas_baseCellSize_def
      Mobile_baseCellSize_def)

subsection \<open>Selection\<close>

lemma click_not_unsold:
  assumes "find (\<lambda>b. blockId b = i) blocks = Some block" "status block \<noteq> Unsold"
  shows "handleBlockClick Select blocks selectedBlocks i = []"
  using assms by (simp add: handleBlockClick_def)

lemma click_unsold:
  assumes "find (\<lambda>b. blockId b = i) blocks = Some block" "status block = Unsold"
  shows "handleBlockClick Select blocks selectedBlocks i
         = (if i \<in> selectedBlocks then [OnBlockDeselect i] else [OnBlockSelect i])"
  using assms by (simp add: handleBlockClick_def)

lemma MintingInterface_click_unsold:
  assumes "find (\<lambda>b. blockId b = i) blocks = Some block" "status block = Unsold"
  shows "MintingInterface_click blocks selectedBlocks i
         = (if i \<in> selectedBlocks then selectedBlocks - {i} else insert i selectedBlocks)"
  using assms
  by (simp add: MintingInterface_click_def click_unsold handleBlockSelect_def handleBlockDeselect_def)

text \<open>
  C7 (amended). In select mode, for a cell that has a record in the block list: when the
  record's status is other than unsold (alive or eliminated), a click fires no callback
  and leaves the selection set unchanged; when the record's status is unsold, two clicks
  in succession return the selection set to its original contents: if the cell was not
  selected, the first click fires \<^verbatim>\<open>onBlockSelect\<close> and adds it and the second fires
  \<^verbatim>\<open>onBlockDeselect\<close> and removes it; if it was selected, the other way round. The
  condition of a stored record is needed: a cell without one also has status unsold, in
  the grid that \<^verbatim>\<open>GameGrid\<close> renders, and is not toggled.
\<close>

theorem selection_toggle:
  assumes "find (\<lambda>b. blockId b = i) blocks = Some block"
  shows "(status block \<noteq> Unsold \<longrightarrow>
            handleBlockClick Select blocks selectedBlocks i = []
            \<and> MintingInterface_click blocks selectedBlocks i = selectedBlocks)
       \<and> (status block = Unsold \<longrightarrow>
            MintingInterface_click blocks (MintingInterface_click blocks selectedBlocks i) i
              = selectedBlocks
            \<and> (i \<notin> selectedBlocks \<longrightarrow>
                 handleBlockClick Select blocks selectedBlocks i = [OnBlockSelect i]
                 \<and> MintingInterface_click blocks selectedBlocks i = insert i selectedBlocks
                 \<and> handleBlockClick Select blocks (MintingInterface_click blocks selectedBlocks i) i
                     = [OnBlockDeselect i])
            \<and> (i \<in> selectedBlocks \<longrightarrow>
                 handleBlockClick Select blocks selectedBlocks i = [OnBlockDeselect i]
                 \<and> MintingInterface_click blocks selectedBlocks i = selectedBlocks - {i}
                 \<and> handleBlockClick Select blocks (MintingInterface_click blocks selectedBlocks i) i
                     = [OnBlockSelect i]))"
proof (intro conjI impI)
  assume n: "status block \<noteq> Unsold"
  show "handleBlockClick Select blocks selectedBlocks i = []"
    by (rule click_not_unsold [OF assms n])
  then show "MintingInterface_click blocks selectedBlocks i = selectedBlocks"
    by (simp add: MintingInterface_click_def)
next
  assume u: "status block = Unsold"
  show "MintingInterface_click blocks (MintingInterface_click blocks selectedBlocks i) i = selectedBlocks"
    by (auto simp: MintingInterface_click_unsold [OF assms u])
  {
    assume "i \<notin> selectedBlocks"
    then show "handleBlockClick Select blocks selectedBlocks i = [OnBlockSelect i]"
      "MintingInterface_click blocks selectedBlocks i = insert i selectedBlocks"
      "handleBlockClick Select blocks (MintingInterface_click blocks selectedBlocks i) i
         = [OnBlockDeselect i]"
      by (simp_all add: MintingInterface_click_unsold [OF assms u] click_unsold [OF assms u])
  }
  {
    assume "i \<in> selectedBlocks"
    then show "handleBlockClick Select blocks selectedBlocks i = [OnBlockDeselect i]"
      "MintingInterface_click blocks selectedBlocks i = selectedBlocks - {i}"
      "handleBlockClick Select blocks (MintingInterface_click blocks selectedBlocks i) i
         = [OnBlockSelect i]"
      by (simp_all add: MintingInterface_click_unsold [OF assms u] click_unsold [OF assms u])
  }
qed

text \<open>Clicks on the alive cell 0 and on the unsold cell 1 of the example list.\<close>

theorem selection_toggle_witness:
  "find (\<lambda>b. blockId b = 0) exampleBlocks = Some (exampleBlocks ! 0)
   \<and> status (exampleBlocks ! 0) \<noteq> Unsold
   \<and> handleBlockClick Select exampleBlocks {1} 0 = []
   \<and> MintingInterface_click exampleBlocks {1} 0 = {1}
   \<and> find (\<lambda>b. blockId b = 1) exampleBlocks = Some (exampleBlocks ! 1)
   \<and> status (exampleBlocks ! 1) = Unsold
   \<and> 1 \<notin> ({} :: nat set)
   \<and> handleBlockClick Select exampleBlocks {} 1 = [OnBlockSelect 1]
   \<and> MintingInterface_click exampleBlocks {} 1 = {1}
   \<and> MintingInterface_click exampleBlocks (MintingInterface_click exampleBlocks {} 1) 1 = {}
   \<and> (1 :: nat) \<in> {1}
   \<and> handleBlockClick Select exampleBlocks {1} 1 = [OnBlockDeselect 1]
   \<and> MintingInterface_click exampleBlocks (MintingInterface_click exampleBlocks {1} 1) 1 = {1}"
proof -
  have f0: "find (\<lambda>b. blockId b = 0) exampleBlocks = Some (exampleBlocks ! 0)"
    by (simp add: exampleBlocks_def)
  have f1: "find (\<lambda>b. blockId b = 1) exampleBlocks = Some (exampleBlocks ! 1)"
    by (simp add: exampleBlocks_def)
  have s0: "status (exampleBlocks ! 0) \<noteq> Unsold" by (simp add: exampleBlocks_def)
  have s1: "status (exampleBlocks ! 1) = Unsold" by (simp add: exampleBlocks_def)
  show ?thesis
    using f0 f1 s0 s1
      selection_toggle [OF f0, of "{1}"]
      selection_toggle [OF f1, of "{}"]
      selection_toggle [OF f1, of "{1}"]
    by simp
qed

text \<open>
  The claim as stated, for every cell with status unsold, fails: with an empty block list
  cell 0 of a 2 by 2 grid has status unsold in \<^verbatim>\<open>gridBlocks\<close>, and a click on it in
  select mode fires no \<^verbatim>\<open>onBlockSelect\<close> and adds nothing to the selection set.
\<close>

theorem selection_toggle_counterexample:
  "status (gridBlocks [] (2 * 2) 2 1 ! 0) = Unsold
   \<and> handleBlockClick Select [] {} 0 = []
   \<and> handleBlockClick Select [] {} 0 \<noteq> [OnBlockSelect 0]
   \<and> MintingInterface_click [] {} 0 = {}
   \<and> MintingInterface_click [] {} 0 \<noteq> {0}"
  by (simp add: gridBlocks_def handleBlockClick_def MintingInterface_click_def)


subsection \<open>Cells without a record\<close>

lemma find_no_record:
  assumes "\<forall>b \<in> set blocks. blockId b \<noteq> i"
  shows "find (\<lambda>b. blockId b = i) blocks = None"
  using assms by (simp add: find_None_iff)

lemma foldl_blockMap_no_record:
  assumes "\<forall>b \<in> set blocks. blockId b \<noteq> i"
  shows "foldl (\<lambda>m block. m(blockId block \<mapsto> block)) m0 blocks i = m0 i"
  using assms by (induction blocks arbitrary: m0) auto

lemma blockMap_no_record:
  assumes "\<forall>b \<in> set blocks. blockId b \<noteq> i"
  shows "blockMap blocks i = None"
  using foldl_blockMap_no_record [OF assms, of Map.empty] by (simp add: blockMap_def)

lemma gridBlocks_no_record:
  assumes "i < totalBlocks" "\<forall>b \<in> set blocks. blockId b \<noteq> i"
  shows "gridBlocks blocks totalBlocks cols blockPrice ! i
         = \<lparr> blockId = i, position = getBlockPosition i cols, status = Unsold,
             ownerId = None, purchasePrice = blockPrice \<rparr>"
  using assms by (simp add: gridBlocks_def find_no_record)

text \<open>
  C8 (amended). For every cell id within the grid that has no record in the block list,
  no operation raises an error: the per-cell grid synthesizes the record
  \<open>{status: unsold, purchasePrice: blockPrice}\<close> for it and, where a viewer address is
  given, colours it as unsold; the desktop canvas fills it with the unsold colour. In
  select mode a click on it, or a hit test that resolves to it, is a silent no-op: no
  callback fires and the selection set is unchanged (only a cell with a record of status
  unsold is toggled).
\<close>

theorem missing_record:
  assumes "i < rows * cols" "\<forall>b \<in> set blocks. blockId b \<noteq> i"
  shows "gridBlocks blocks (rows * cols) cols blockPrice ! i
           = \<lparr> blockId = i, position = getBlockPosition i cols, status = Unsold,
               ownerId = None, purchasePrice = blockPrice \<rparr>
       \<and> (userAddress \<noteq> None \<longrightarrow>
            Block_baseColor (gridBlocks blocks (rows * cols) cols blockPrice ! i) userAddress
              = getBlockStatusColor Unsold False)
       \<and> Canvas_fillColor (blockMap blocks i) = Canvas_colors_unsold
       \<and> handleBlockClick mode blocks selectedBlocks i = []
       \<and> MintingInterface_click blocks selectedBlocks i = selectedBlocks
       \<and> (Canvas_hitCell viewport rows cols clientX clientY rectLeft rectTop = Some i \<longrightarrow>
            Canvas_handleClick mode isDragging viewport rows cols blocks selectedBlocks
              clientX clientY rectLeft rectTop = [])"
proof (intro conjI impI)
  show g: "gridBlocks blocks (rows * cols) cols blockPrice ! i
      = \<lparr> blockId = i, position = getBlockPosition i cols, status = Unsold,
          ownerId = None, purchasePrice = blockPrice \<rparr>"
    by (rule gridBlocks_no_record [OF assms])
  show "Canvas_fillColor (blockMap blocks i) = Canvas_colors_unsold"
    by (simp add: blockMap_no_record [OF assms(2)] Canvas_fillColor_def)
  show h: "handleBlockClick mode blocks selectedBlocks i = []"
    by (simp add: handleBlockClick_def find_no_record [OF assms(2)])
  show "MintingInterface_click blocks selectedBlocks i = selectedBlocks"
    by (simp add: MintingInterface_click_def handleBlockClick_def find_no_record [OF assms(2)])
  {
    assume "userAddress \<noteq> None"
    then show "Block_baseColor (gridBlocks blocks (rows * cols) cols blockPrice ! i) userAddress
        = getBlockStatusColor Unsold False"
      by (auto simp: g Block_baseColor_def)
  }
  {
    assume "Canvas_hitCell viewport rows cols clientX clientY rectLeft rectTop = Some i"
    then show "Canvas_handleClick mode isDragging viewport rows cols blocks selectedBlocks
        clientX clientY rectLeft rectTop = []"
      by (simp add: Canvas_handleClick_def blockMap_no_record [OF assms(2)])
  }
qed

text \<open>Cell 3 of a 2 by 2 grid with the example list, clicked at canvas point \<open>(12, 12)\<close>.\<close>

theorem missing_record_witness:
  "(3 :: nat) < 2 * 2
   \<and> list_all (\<lambda>b. blockId b \<noteq> 3) exampleBlocks
   \<and> Some ''player_1'' \<noteq> None
   \<and> Canvas_hitCell \<lparr>vp_x = 0, vp_y = 0, vp_zoom = 1\<rparr> 2 2 14 14 2 2 = Some 3
   \<and> gridBlocks exampleBlocks (2 * 2) 2 (5 / 100) ! 3
       = \<lparr> blockId = 3, position = (1, 1), status = Unsold, ownerId = None, purchasePrice = 5 / 100 \<rparr>
   \<and> Block_baseColor (gridBlocks exampleBlocks (2 * 2) 2 (5 / 100) ! 3) (Some ''player_1'')
       = ''border-gray-300 bg-gray-50''
   \<and> Canvas_fillColor (blockMap exampleBlocks 3) = ''#E5E7EB''
   \<and> handleBlockClick Select exampleBlocks {} 3 = []
   \<and> MintingInterface_click exampleBlocks {} 3 = {}
   \<and> Canvas_handleClick Select False \<lparr>vp_x = 0, vp_y = 0, vp_zoom = 1\<rparr> 2 2 exampleBlocks {}
        14 14 2 2 = []"
proof -
  have b: "3 < (2 :: nat) * 2" by simp
  have n: "\<forall>b \<in> set exampleBlocks. blockId b \<noteq> 3" by (simp add: exampleBlocks_def)
  have hit: "Canvas_hitCell \<lparr>vp_x = 0, vp_y = 0, vp_zoom = 1\<rparr> 2 2 14 14 2 2 = Some 3"
    by (simp add: Canvas_hitCell_def Let_def Canvas_cellSize_def Canvas_gap_def
        Canvas_baseCellSize_def)
  show ?thesis
    using n hit
      missing_record [OF b n, where blockPrice = "5 / 100" and userAddress = "Some ''player_1''"
        and mode = Select and selectedBlocks = "{}" and isDragging = False
        and viewport = "\<lparr>vp_x = 0, vp_y = 0, vp_zoom = 1\<rparr>"
        and clientX = 14 and clientY = 14 and rectLeft = 2 and rectTop = 2]
    by (simp add: list_all_iff getBlockPosition_def getBlockStatusColor_def Canvas_colors_unsold_def
        Block_baseColor_def)
qed

text \<open>
  The claim as stated fails: with an empty block list, a click on cell 0 in select mode
  fires nothing and selects nothing, in the per-cell grid and on the canvas; with a
  record of status unsold for cell 0 the same click fires \<^verbatim>\<open>onBlockSelect\<close> and selects
  it.
\<close>

theorem missing_record_counterexample:
  "handleBlockClick Select [] {} 0 = []
   \<and> MintingInterface_click [] {} 0 = {}
   \<and> Canvas_handleClick Select False \<lparr>vp_x = 0, vp_y = 0, vp_zoom = 1\<rparr> 2 2 [] {} 5 5 0 0 = []
   \<and> handleBlockClick Select
        [\<lparr> blockId = 0, position = (0, 0), status = Unsold, ownerId = None, purchasePrice = 1 \<rparr>] {} 0
       = [OnBlockSelect 0]
   \<and> MintingInterface_click
        [\<lparr> blockId = 0, position = (0, 0), status = Unsold, ownerId = None, purchasePrice = 1 \<rparr>] {} 0
       = {0}
   \<and> Canvas_handleClick Select False \<lparr>vp_x = 0, vp_y = 0, vp_zoom = 1\<rparr> 2 2
        [\<lparr> blockId = 0, position = (0, 0), status = Unsold, ownerId = None, purchasePrice = 1 \<rparr>] {}
        5 5 0 0
       = [OnBlockSelect 0]"
  by (simp add: handleBlockClick_def MintingInterface_click_def Canvas_handleClick_def
      Canvas_hitCell_def blockMap_def Let_def Canvas_cellSize_def Canvas_gap_def
      Canvas_baseCellSize_def handleBlockSelect_def)

subsection \<open>Elimination worker\<close>

lemma foldl_pushResult:
  "foldl (pushResult seed roundNumber eliminationRate) acc blockIds
   = acc @ map (\<lambda>i. \<lparr> res_blockId = i,
                       res_eliminated = (generateBlockRandomness seed roundNumber i < eliminationRate),
                       res_vrfValue = generateBlockRandomness seed roundNumber i \<rparr>) blockIds"
  by (induction blockIds arbitrary: acc) (simp_all add: pushResult_def Let_def)

text \<open>
  C10. The result list of \<^verbatim>\<open>calculateEliminations\<close> has exactly one entry per input
  block id, in the order of the input; each entry satisfies
  \<open>eliminated = (vrfValue < eliminationRate)\<close>; and its \<open>vrfValue\<close> is
  \<^verbatim>\<open>generateBlockRandomness\<close> of the seed, the round number and the block id, a
  function of these three alone, so that equal inputs give equal results.
\<close>

theorem calculateEliminations_results:
  "map res_blockId (fst (calculateEliminations seed roundNumber blockIds eliminationRate)) = blockIds
   \<and> length (fst (calculateEliminations seed roundNumber blockIds eliminationRate)) = length blockIds
   \<and> list_all (\<lambda>r. res_eliminated r = (res_vrfValue r < eliminationRate))
        (fst (calculateEliminations seed roundNumber blockIds eliminationRate))
   \<and> map res_vrfValue (fst (calculateEliminations seed roundNumber blockIds eliminationRate))
       = map (generateBlockRandomness seed roundNumber) blockIds"
  by (simp add: calculateEliminations_def foldl_pushResult comp_def list_all_iff)

text \<open>Seed \<open>abc\<close>, round 3, blocks 42 and 7, elimination rate 0.57.\<close>

theorem calculateEliminations_results_witness:
  "map res_blockId (fst (calculateEliminations ''abc'' 3 [42, 7] (57 / 100))) = [42, 7]
   \<and> map res_vrfValue (fst (calculateEliminations ''abc'' 3 [42, 7] (57 / 100)))
       = [1253558215 / 2147483647, 1206488626 / 2147483647]
   \<and> map res_eliminated (fst (calculateEliminations ''abc'' 3 [42, 7] (57 / 100))) = [False, True]"
proof -
  let ?results = "fst (calculateEliminations ''abc'' 3 [42, 7] (57 / 100))"
  have 1: "generateBlockRandomness ''abc'' 3 42 = 1253558215 / 2147483647"
    by (simp add: generateBlockRandomness_def hashStep_def ToInt32_def Let_def digitChar_def)
  have 2: "generateBlockRandomness ''abc'' 3 7 = 1206488626 / 2147483647"
    by (simp add: generateBlockRandomness_def hashStep_def ToInt32_def Let_def digitChar_def)
  note c = calculateEliminations_results [of "''abc''" 3 "[42, 7]" "57 / 100"]
  from c have ids: "map res_blockId ?results = [42, 7]" by simp
  from c have vals: "map res_vrfValue ?results = [1253558215 / 2147483647, 1206488626 / 2147483647]"
    by (simp only: 1 2 list.map)
  from c have elim: "list_all (\<lambda>r. res_eliminated r = (res_vrfValue r < 57 / 100)) ?results"
    by simp
  from ids obtain r1 r2 where r: "?results = [r1, r2]"
    by (auto simp: map_eq_Cons_conv)
  from vals elim have "map res_eliminated ?results = [False, True]"
    unfolding r by simp
  with ids vals show ?thesis by simp
qed

end
